theory Spec2Isabelle
  imports Main "HOL-Library.Word"
begin

unbundle bit_operations_syntax

section \<open>The catalog of \<^verbatim>\<open>src/src/main.cpp\<close>\<close>

text \<open>
  The tool walks the typedef declarations of a translation unit, records the layout of
  every record type in an \<^verbatim>\<open>SDNA\<close> catalog and writes the catalog to a file.
  An \<^verbatim>\<open>int\<close> is a 32-bit word, \<^verbatim>\<open>size_t\<close> and \<^verbatim>\<open>uint64_t\<close> are 64-bit words
  (an LP64 host), an \<^verbatim>\<open>unsigned char\<close> is an 8-bit word, and a \<^verbatim>\<open>char\<close> buffer or a
  \<^verbatim>\<open>std::string\<close> is a list of characters.
\<close>

type_synonym int32 = "32 word"
type_synonym size_t = "64 word"
type_synonym uchar = "8 word"

abbreviation NUL :: char where
  "NUL \<equiv> CHR 0x00"

text \<open>
  \<^verbatim>\<open>struct DNAField\<close>: the two \<^verbatim>\<open>char[64]\<close> buffers and five \<^verbatim>\<open>int\<close>s. The selectors
  carry the suffix \<open>_f\<close> (\<open>size\<close> and \<open>name\<close> are taken twice in the source).
\<close>

record DNAField =
  name_f :: string
  type_f :: string
  offset_f :: int32
  size_f :: int32
  align_f :: int32
  array_f :: int32
  flags_f :: int32

text \<open>The anonymous enum of flag bits.\<close>

definition DNA_FIELD_IS_POINTER :: int32 where
  "DNA_FIELD_IS_POINTER = push_bit 0 1"

definition DNA_FIELD_IS_ARRAY :: int32 where
  "DNA_FIELD_IS_ARRAY = push_bit 1 1"

definition DNA_FIELD_IS_FUNCTION :: int32 where
  "DNA_FIELD_IS_FUNCTION = push_bit 2 1"

text \<open>
  \<^verbatim>\<open>struct DNAStruct\<close>: the pointer \<^verbatim>\<open>_Fields\<close> and the count \<^verbatim>\<open>_FieldsLen\<close> are one
  list, whose length is the count. \<^verbatim>\<open>struct SDNA\<close> likewise for \<^verbatim>\<open>_Types\<close> and
  \<^verbatim>\<open>_TypesLen\<close>.
\<close>

record DNAStruct =
  name_s :: string
  size_s :: int32
  Fields :: "DNAField list"

record SDNA =
  Types :: "DNAStruct list"

text \<open>What the source can do wrong at run time: each is undefined behaviour in C++.\<close>

datatype error = NullDereference | DivisionByZero | ReadPastBuffer

text \<open>Sequencing: the second step runs on the result of the first unless that failed.\<close>

definition and_then :: "error + 'a \<Rightarrow> ('a \<Rightarrow> error + 'b) \<Rightarrow> error + 'b" where
  "and_then r f = (case r of Inl e \<Rightarrow> Inl e | Inr x \<Rightarrow> f x)"

subsection \<open>The C library calls\<close>

text \<open>
  \<^verbatim>\<open>strncpy(dst, src, n)\<close> writes exactly \<open>n\<close> bytes to \<open>dst\<close>: the characters of
  \<open>src\<close> up to its first NUL or up to \<open>n\<close> of them, and NUL bytes for what is left.
  When \<open>src\<close> has \<open>n\<close> characters or more before its NUL, no NUL is written. The source
  is \<^verbatim>\<open>std::string::c_str()\<close>: the characters of the string, then a NUL.
\<close>

fun strncpy :: "nat \<Rightarrow> string \<Rightarrow> string" where
  "strncpy 0 src = []"
| "strncpy (Suc n) [] = replicate (Suc n) NUL"
| "strncpy (Suc n) (c # src) =
     (if c = NUL then replicate (Suc n) NUL else c # strncpy n src)"

text \<open>\<^verbatim>\<open>memset(p, 0, sizeof *p)\<close> on a struct and on a field entry.\<close>

definition memset0_struct :: DNAStruct where
  "memset0_struct = \<lparr>name_s = replicate 64 NUL, size_s = 0, Fields = []\<rparr>"

definition memset0_field :: DNAField where
  "memset0_field = \<lparr>name_f = replicate 64 NUL, type_f = replicate 64 NUL, offset_f = 0,
     size_f = 0, align_f = 0, array_f = 0, flags_f = 0\<rparr>"

subsection \<open>\<^verbatim>\<open>DNA_add_struct\<close> and \<^verbatim>\<open>DNA_add_field\<close>\<close>

text \<open>
  Whether \<^verbatim>\<open>realloc\<close> succeeds is decided outside the program: it is the first argument.
  The handle returned is the index of the new entry (the source returns its address),
  \<open>None\<close> is the null pointer. On failure the catalog is unchanged.
\<close>

definition DNA_add_struct :: "bool \<Rightarrow> SDNA \<Rightarrow> string \<Rightarrow> nat option \<times> SDNA" where
  "DNA_add_struct realloc_ok DNA name =
     (if realloc_ok then
        let n = length (Types DNA);
            arr = Types DNA @ [memset0_struct];
            arr = arr[n := (arr ! n)\<lparr>name_s := strncpy 64 name\<rparr>]
        in (Some n, DNA\<lparr>Types := arr\<rparr>)
      else (None, DNA))"

definition DNA_add_field :: "bool \<Rightarrow> DNAStruct \<Rightarrow> string \<Rightarrow> nat option \<times> DNAStruct" where
  "DNA_add_field realloc_ok Struct name =
     (if realloc_ok then
        let n = length (Fields Struct);
            arr = Fields Struct @ [memset0_field];
            arr = arr[n := (arr ! n)\<lparr>name_f := strncpy 64 name\<rparr>]
        in (Some n, Struct\<lparr>Fields := arr\<rparr>)
      else (None, Struct))"

subsection \<open>What the program asks of clang\<close>

text \<open>
  The types of clang's AST are not code of this program: a \<^verbatim>\<open>QualType\<close> is taken as
  the data the program reads from it. Every type carries its printed name
  (\<^verbatim>\<open>getAsString\<close>) and its \<^verbatim>\<open>TypeInfo\<close> (width and alignment in bits, a
  \<^verbatim>\<open>uint64_t\<close> and an \<^verbatim>\<open>unsigned\<close>); a pointer type carries its pointee, an array type
  its element type and its number of elements (which the program never reads), and a
  function type is told apart because \<^verbatim>\<open>isFunctionPointerType\<close> asks for it.
  Every other type (builtin, record, enum) is an \<open>OtherType\<close>.
\<close>

record TypeInfo =
  Width :: "64 word"
  Align :: "32 word"

datatype qual_type =
    OtherType string TypeInfo
  | FunctionType string TypeInfo
  | PointerType string TypeInfo qual_type
  | ArrayType string TypeInfo qual_type nat

fun getAsString :: "qual_type \<Rightarrow> string" where
  "getAsString (OtherType s i) = s"
| "getAsString (FunctionType s i) = s"
| "getAsString (PointerType s i P) = s"
| "getAsString (ArrayType s i E n) = s"

fun getTypeInfo :: "qual_type \<Rightarrow> TypeInfo" where
  "getTypeInfo (OtherType s i) = i"
| "getTypeInfo (FunctionType s i) = i"
| "getTypeInfo (PointerType s i P) = i"
| "getTypeInfo (ArrayType s i E n) = i"

fun isPointerType :: "qual_type \<Rightarrow> bool" where
  "isPointerType (PointerType s i P) = True"
| "isPointerType T = False"

fun isFunctionType :: "qual_type \<Rightarrow> bool" where
  "isFunctionType (FunctionType s i) = True"
| "isFunctionType T = False"

text \<open>clang: a pointer type whose pointee is a function type.\<close>

fun isFunctionPointerType :: "qual_type \<Rightarrow> bool" where
  "isFunctionPointerType (PointerType s i P) = isFunctionType P"
| "isFunctionPointerType T = False"

fun isArrayType :: "qual_type \<Rightarrow> bool" where
  "isArrayType (ArrayType s i E n) = True"
| "isArrayType T = False"

text \<open>
  clang answers \<^verbatim>\<open>getPointeeType\<close> on a type that is no pointer with the null type,
  which prints as \<^verbatim>\<open>NULL TYPE\<close>. The program asks only behind \<^verbatim>\<open>isPointerType\<close>, and
  for the element type only behind \<^verbatim>\<open>isArrayType\<close>.
\<close>

definition null_type :: qual_type where
  "null_type = OtherType ''NULL TYPE'' \<lparr>Width = 0, Align = 0\<rparr>"

fun getPointeeType :: "qual_type \<Rightarrow> qual_type" where
  "getPointeeType (PointerType s i P) = P"
| "getPointeeType T = null_type"

fun getElementType :: "qual_type \<Rightarrow> qual_type" where
  "getElementType (ArrayType s i E n) = E"
| "getElementType T = null_type"

record FieldDecl =
  getNameAsString :: string
  getType :: qual_type
  getFieldOffset :: "64 word"

record RecordDecl =
  getBeginLoc_isValid :: bool
  fields_rd :: "FieldDecl list"

text \<open>
  A typedef declaration: its underlying type and the record declaration behind it
  (\<^verbatim>\<open>getAsRecordDecl\<close>, null when the type is no record).
\<close>

record TypedefDecl =
  getUnderlyingType :: qual_type
  getAsRecordDecl :: "RecordDecl option"

subsection \<open>\<^verbatim>\<open>TypedefDeclCallback::run\<close>\<close>

text \<open>
  The outcomes of the successive \<^verbatim>\<open>realloc\<close> calls are a list that the run consumes;
  calls beyond the list succeed.
\<close>

fun realloc :: "bool list \<Rightarrow> bool \<times> bool list" where
  "realloc [] = (True, [])"
| "realloc (ok # heap) = (ok, heap)"

text \<open>
  The loop that finds the simplest element type:
  \<^verbatim>\<open>while (AT->getElementType()->isArrayType()) AT = AT->getElementType()->...\<close>.
\<close>

function find_element :: "qual_type \<Rightarrow> qual_type" where
  "find_element AT =
     (if isArrayType (getElementType AT) then find_element (getElementType AT) else AT)"
  by pat_completeness auto
termination
proof (relation "measure size")
  show "wf (measure size)" by simp
next
  fix AT :: qual_type
  assume "isArrayType (getElementType AT)"
  then show "(getElementType AT, AT) \<in> measure size"
    by (cases AT) (simp_all add: null_type_def)
qed

declare find_element.simps [simp del]

text \<open>
  The body of the loop over the fields, from \<^verbatim>\<open>Field->size = size\<close> on: \<open>field\<close> is the
  entry behind the handle, and the result is the entry as the body leaves it (\<open>size'\<close>
  is the local \<^verbatim>\<open>size\<close> of the source). The division \<^verbatim>\<open>size / elem_size\<close> is
  undefined for a zero \<^verbatim>\<open>elem_size\<close>.
\<close>

definition run_field :: "FieldDecl \<Rightarrow> DNAField \<Rightarrow> error + DNAField" where
  "run_field FD field =
     (let FieldQual = getType FD;
          size' = Width (getTypeInfo FieldQual) div 8;
          align = (ucast (Align (getTypeInfo FieldQual) div 8) :: size_t);
          offset = getFieldOffset FD;
          field = field\<lparr>size_f := ucast size'\<rparr>;
          field = field\<lparr>align_f := ucast align\<rparr>;
          field = field\<lparr>offset_f := ucast offset\<rparr>;
          field = field\<lparr>array_f := 1\<rparr>;
          field = (if isPointerType FieldQual
                   then field\<lparr>flags_f := flags_f field OR DNA_FIELD_IS_POINTER\<rparr> else field);
          field = (if isFunctionPointerType FieldQual
                   then field\<lparr>flags_f := flags_f field OR DNA_FIELD_IS_FUNCTION\<rparr> else field)
      in if isPointerType FieldQual \<or> isFunctionPointerType FieldQual then
           let PointeeQual = getPointeeType FieldQual;
               tp = getAsString PointeeQual
           in Inr (field\<lparr>type_f := strncpy 64 tp\<rparr>)
         else if isArrayType FieldQual then
           let AT = find_element FieldQual;
               ArrayElementQual = getElementType AT;
               elem_size = Width (getTypeInfo ArrayElementQual) div 8
           in if elem_size = 0 then Inl DivisionByZero
              else
                let field = field\<lparr>array_f := ucast (size' div elem_size)\<rparr>
                in if isPointerType ArrayElementQual then
                     let field = field\<lparr>flags_f := flags_f field OR DNA_FIELD_IS_POINTER\<rparr>;
                         PointeeQual = getPointeeType ArrayElementQual;
                         tp = getAsString PointeeQual
                     in Inr (field\<lparr>type_f := strncpy 64 tp\<rparr>)
                   else
                     let tp = getAsString ArrayElementQual
                     in Inr (field\<lparr>type_f := strncpy 64 tp\<rparr>)
         else
           let tp = getAsString FieldQual
           in Inr (field\<lparr>type_f := strncpy 64 tp\<rparr>))"

text \<open>
  The loop over \<^verbatim>\<open>RD->fields()\<close>, on the struct entry behind the handle \<open>Struct\<close>. The
  handle that \<^verbatim>\<open>DNA_add_field\<close> returns is written through with no test: a null
  handle is a null dereference.
\<close>

fun run_fields :: "bool list \<Rightarrow> FieldDecl list \<Rightarrow> DNAStruct \<Rightarrow> error + (bool list \<times> DNAStruct)" where
  "run_fields heap [] Struct = Inr (heap, Struct)"
| "run_fields heap (FD # FDs) Struct =
     (case DNA_add_field (fst (realloc heap)) Struct (getNameAsString FD) of
        (None, Struct') \<Rightarrow> Inl NullDereference
      | (Some j, Struct') \<Rightarrow>
          (case run_field FD (Fields Struct' ! j) of
             Inl e \<Rightarrow> Inl e
           | Inr field \<Rightarrow>
               run_fields (snd (realloc heap)) FDs
                 (Struct'\<lparr>Fields := (Fields Struct')[j := field]\<rparr>)))"

text \<open>
  One call of the match callback. The entry behind \<open>Struct\<close> is worked on and stored
  back at its index; nothing else reads the catalog meanwhile.
\<close>

definition run :: "TypedefDecl \<Rightarrow> bool list \<times> SDNA \<Rightarrow> error + (bool list \<times> SDNA)" where
  "run TD st =
     (let heap = fst st; DNA = snd st; Qual = getUnderlyingType TD
      in case getAsRecordDecl TD of
           None \<Rightarrow> Inr (heap, DNA)
         | Some RD \<Rightarrow>
             if \<not> getBeginLoc_isValid RD then Inr (heap, DNA)
             else
               (case DNA_add_struct (fst (realloc heap)) DNA (getAsString Qual) of
                  (None, DNA') \<Rightarrow> Inl NullDereference
                | (Some i, DNA') \<Rightarrow>
                    let Struct = (Types DNA' ! i)
                          \<lparr>size_s := ucast (Width (getTypeInfo Qual) div 8)\<rparr>
                    in and_then (run_fields (snd (realloc heap)) (fields_rd RD) Struct)
                         (\<lambda>(heap', Struct').
                            Inr (heap', DNA'\<lparr>Types := (Types DNA')[i := Struct']\<rparr>))))"

text \<open>The executor calls \<open>run\<close> once for every typedef declaration it matches.\<close>

fun execute :: "TypedefDecl list \<Rightarrow> bool list \<times> SDNA \<Rightarrow> error + (bool list \<times> SDNA)" where
  "execute [] st = Inr st"
| "execute (TD # TDs) st =
     (case run TD st of Inl e \<Rightarrow> Inl e | Inr st' \<Rightarrow> execute TDs st')"

subsection \<open>The encoder of \<^verbatim>\<open>main\<close>\<close>

text \<open>
  The byte order of the machine that runs the tool is a parameter. \<open>object_bytes\<close> is
  the object representation of an \<^verbatim>\<open>int\<close>, the four bytes behind
  \<^verbatim>\<open>(unsigned char *)&value\<close> in address order.
\<close>

datatype endian = LittleEndian | BigEndian

fun object_bytes :: "endian \<Rightarrow> int32 \<Rightarrow> uchar list" where
  "object_bytes LittleEndian v =
     [ucast v, ucast (drop_bit 8 v), ucast (drop_bit 16 v), ucast (drop_bit 24 v)]"
| "object_bytes BigEndian v =
     [ucast (drop_bit 24 v), ucast (drop_bit 16 v), ucast (drop_bit 8 v), ucast v]"

text \<open>The loop \<^verbatim>\<open>for (itr = raw; itr != raw + n; itr++) Buffer.push_back(*itr)\<close>.\<close>

fun push_all :: "uchar list \<Rightarrow> uchar list \<Rightarrow> uchar list" where
  "push_all Buffer [] = Buffer"
| "push_all Buffer (b # raw) = push_all (Buffer @ [b]) raw"

definition WriteWordOut :: "uchar list \<Rightarrow> string \<Rightarrow> uchar list" where
  "WriteWordOut Buffer Word = push_all Buffer (map of_char Word)"

definition WriteStringOut :: "uchar list \<Rightarrow> string \<Rightarrow> uchar list" where
  "WriteStringOut Buffer Word = push_all Buffer (map of_char Word) @ [of_char NUL]"

definition WriteIntOut :: "endian \<Rightarrow> uchar list \<Rightarrow> int32 \<Rightarrow> uchar list" where
  "WriteIntOut e Buffer v = push_all Buffer (object_bytes e v)"

text \<open>
  \<^verbatim>\<open>WriteStringOut(_BufferOut, Struct->name)\<close> converts the \<^verbatim>\<open>char[64]\<close> buffer to a
  \<^verbatim>\<open>std::string\<close>: the characters before the first NUL. A buffer that holds no NUL is
  read past its end.
\<close>

definition string_of_buffer :: "string \<Rightarrow> error + string" where
  "string_of_buffer buf =
     (if NUL \<in> set buf then Inr (takeWhile (\<lambda>c. c \<noteq> NUL) buf) else Inl ReadPastBuffer)"

text \<open>The body of the inner loop of \<^verbatim>\<open>main\<close>, and the loop.\<close>

definition write_field :: "endian \<Rightarrow> uchar list \<Rightarrow> DNAField \<Rightarrow> error + uchar list" where
  "write_field e Buffer field =
     and_then (string_of_buffer (name_f field)) (\<lambda>name.
     and_then (string_of_buffer (type_f field)) (\<lambda>type.
       let Buffer = WriteStringOut Buffer name;
           Buffer = WriteStringOut Buffer type;
           Buffer = WriteIntOut e Buffer (offset_f field);
           Buffer = WriteIntOut e Buffer (size_f field);
           Buffer = WriteIntOut e Buffer (align_f field);
           Buffer = WriteIntOut e Buffer (array_f field);
           Buffer = WriteIntOut e Buffer (flags_f field)
       in Inr Buffer))"

fun write_fields :: "endian \<Rightarrow> uchar list \<Rightarrow> DNAField list \<Rightarrow> error + uchar list" where
  "write_fields e Buffer [] = Inr Buffer"
| "write_fields e Buffer (field # rest) =
     (case write_field e Buffer field of
        Inl err \<Rightarrow> Inl err
      | Inr Buffer' \<Rightarrow> write_fields e Buffer' rest)"

text \<open>The body of the outer loop, and the loop.\<close>

definition write_struct :: "endian \<Rightarrow> uchar list \<Rightarrow> DNAStruct \<Rightarrow> error + uchar list" where
  "write_struct e Buffer Struct =
     and_then (string_of_buffer (name_s Struct)) (\<lambda>name.
       let Buffer = WriteStringOut Buffer name;
           Buffer = WriteIntOut e Buffer (size_s Struct);
           Buffer = WriteIntOut e Buffer (of_nat (length (Fields Struct)))
       in write_fields e Buffer (Fields Struct))"

fun write_structs :: "endian \<Rightarrow> uchar list \<Rightarrow> DNAStruct list \<Rightarrow> error + uchar list" where
  "write_structs e Buffer [] = Inr Buffer"
| "write_structs e Buffer (Struct # rest) =
     (case write_struct e Buffer Struct of
        Inl err \<Rightarrow> Inl err
      | Inr Buffer' \<Rightarrow> write_structs e Buffer' rest)"

text \<open>Lines 266 to 287 of \<^verbatim>\<open>main\<close>: the bytes of \<^verbatim>\<open>_BufferOut\<close>.\<close>

definition encode :: "endian \<Rightarrow> SDNA \<Rightarrow> error + uchar list" where
  "encode e DNA =
     (let Buffer = WriteWordOut [] ''SDNA'';
          Buffer = WriteIntOut e Buffer (of_nat (length (Types DNA)))
      in write_structs e Buffer (Types DNA))"

subsection \<open>The end of \<^verbatim>\<open>main\<close>: writing the file\<close>

text \<open>
  Whether \<^verbatim>\<open>fopen\<close> succeeds and how many bytes \<^verbatim>\<open>fwrite\<close> writes are decided
  outside the program. The result is \<^verbatim>\<open>ExitStatus\<close>.
\<close>

definition write_file :: "bool \<Rightarrow> nat \<Rightarrow> uchar list \<Rightarrow> int32" where
  "write_file fopen_ok fwrite_result BufferOut =
     (if fopen_ok then (if fwrite_result \<noteq> length BufferOut then - 2 else 0) else - 1)"

text \<open>
  The whole of \<^verbatim>\<open>main\<close>: no executor, status 1; otherwise the callback runs on an
  empty catalog, the catalog is encoded and the file written. The value returned is the
  exit status of the process. The result of \<^verbatim>\<open>fclose\<close> is dropped (line 303), so it
  is no parameter: the status depends on \<^verbatim>\<open>fopen\<close> and on the count that
  \<^verbatim>\<open>fwrite\<close> returns, and on nothing else of the file.
\<close>

definition main :: "bool \<Rightarrow> endian \<Rightarrow> bool list \<Rightarrow> TypedefDecl list \<Rightarrow> bool \<Rightarrow>
    (uchar list \<Rightarrow> nat) \<Rightarrow> error + int32" where
  "main executor_ok e heap TDs fopen_ok fwrite =
     (if \<not> executor_ok then Inr 1
      else
        and_then (execute TDs (heap, \<lparr>Types = []\<rparr>)) (\<lambda>(heap', DNA).
        and_then (encode e DNA) (\<lambda>BufferOut.
          Inr (write_file fopen_ok (fwrite BufferOut) BufferOut))))"

section \<open>The format as the specification words it\<close>

text \<open>
  A string of the catalog is the C string in its buffer. The format: the magic
  \<^verbatim>\<open>53 44 4E 41\<close>, the number of structs, and for every struct in order its name with one
  zero byte, its size, its number of fields and its fields; a field is its name and its
  type, each with one zero byte, and the five numbers offset, size, align, array, flags.
  A number is four bytes in the byte order of the producer.
\<close>

definition c_str :: "string \<Rightarrow> string" where
  "c_str buf = takeWhile (\<lambda>c. c \<noteq> NUL) buf"

definition fmt_cstring :: "string \<Rightarrow> uchar list" where
  "fmt_cstring s = map of_char s @ [0x00]"

definition fmt_int32 :: "endian \<Rightarrow> int32 \<Rightarrow> uchar list" where
  "fmt_int32 e v =
     (let lsb_first = map (\<lambda>k. ucast (drop_bit (8 * k) v AND 0xFF)) [0, 1, 2, 3]
      in case e of LittleEndian \<Rightarrow> lsb_first | BigEndian \<Rightarrow> rev lsb_first)"

definition fmt_field :: "endian \<Rightarrow> DNAField \<Rightarrow> uchar list" where
  "fmt_field e F =
     fmt_cstring (c_str (name_f F)) @ fmt_cstring (c_str (type_f F)) @
     fmt_int32 e (offset_f F) @ fmt_int32 e (size_f F) @ fmt_int32 e (align_f F) @
     fmt_int32 e (array_f F) @ fmt_int32 e (flags_f F)"

definition fmt_struct :: "endian \<Rightarrow> DNAStruct \<Rightarrow> uchar list" where
  "fmt_struct e S =
     fmt_cstring (c_str (name_s S)) @ fmt_int32 e (size_s S) @
     fmt_int32 e (of_nat (length (Fields S))) @ concat (map (fmt_field e) (Fields S))"

definition fmt_catalog :: "endian \<Rightarrow> SDNA \<Rightarrow> uchar list" where
  "fmt_catalog e DNA =
     [0x53, 0x44, 0x4E, 0x41] @ fmt_int32 e (of_nat (length (Types DNA))) @
     concat (map (fmt_struct e) (Types DNA))"

text \<open>Every buffer of the catalog holds a NUL: every stored string is a C string.\<close>

definition field_terminated :: "DNAField \<Rightarrow> bool" where
  "field_terminated F \<longleftrightarrow> NUL \<in> set (name_f F) \<and> NUL \<in> set (type_f F)"

definition struct_terminated :: "DNAStruct \<Rightarrow> bool" where
  "struct_terminated S \<longleftrightarrow> NUL \<in> set (name_s S) \<and> list_all field_terminated (Fields S)"

definition terminated :: "SDNA \<Rightarrow> bool" where
  "terminated DNA \<longleftrightarrow> list_all struct_terminated (Types DNA)"

section \<open>A reader of the format\<close>

text \<open>
  Modelled from the spec: the reader of the catalog file is no part of the repository.
  This one follows the format of section 6 of the specification field by field: the
  magic, a count, and as many structs; a struct is a zero-terminated name, a size, a
  count, and as many fields; a string ends at the first zero byte; a number is four
  bytes in the byte order of the producer. It refuses input that ends early, that has
  the wrong magic, or that goes on after the last struct.
\<close>

type_synonym field_tuple = "string \<times> string \<times> int32 \<times> int32 \<times> int32 \<times> int32 \<times> int32"
type_synonym struct_tuple = "string \<times> int32 \<times> int32 \<times> field_tuple list"

fun read_int32 :: "endian \<Rightarrow> uchar list \<Rightarrow> (int32 \<times> uchar list) option" where
  "read_int32 LittleEndian (b0 # b1 # b2 # b3 # rest) =
     Some (ucast b0 OR push_bit 8 (ucast b1) OR push_bit 16 (ucast b2) OR
           push_bit 24 (ucast b3), rest)"
| "read_int32 BigEndian (b0 # b1 # b2 # b3 # rest) =
     Some (ucast b3 OR push_bit 8 (ucast b2) OR push_bit 16 (ucast b1) OR
           push_bit 24 (ucast b0), rest)"
| "read_int32 e bs = None"

definition read_cstring :: "uchar list \<Rightarrow> (string \<times> uchar list) option" where
  "read_cstring bs =
     (if 0 \<in> set bs
      then Some (map (\<lambda>b. char_of (unat b)) (takeWhile (\<lambda>b. b \<noteq> 0) bs), tl (dropWhile (\<lambda>b. b \<noteq> 0) bs))
      else None)"

definition read_field :: "endian \<Rightarrow> uchar list \<Rightarrow> (field_tuple \<times> uchar list) option" where
  "read_field e bs =
     Option.bind (read_cstring bs) (\<lambda>(name, bs).
     Option.bind (read_cstring bs) (\<lambda>(type, bs).
     Option.bind (read_int32 e bs) (\<lambda>(offset, bs).
     Option.bind (read_int32 e bs) (\<lambda>(size', bs).
     Option.bind (read_int32 e bs) (\<lambda>(align, bs).
     Option.bind (read_int32 e bs) (\<lambda>(array, bs).
     Option.bind (read_int32 e bs) (\<lambda>(flags, bs).
       Some ((name, type, offset, size', align, array, flags), bs))))))))"

fun read_fields :: "endian \<Rightarrow> nat \<Rightarrow> uchar list \<Rightarrow> (field_tuple list \<times> uchar list) option" where
  "read_fields e 0 bs = Some ([], bs)"
| "read_fields e (Suc n) bs =
     (case read_field e bs of
        None \<Rightarrow> None
      | Some (F, bs') \<Rightarrow>
          (case read_fields e n bs' of
             None \<Rightarrow> None
           | Some (Fs, bs'') \<Rightarrow> Some (F # Fs, bs'')))"

definition read_struct :: "endian \<Rightarrow> uchar list \<Rightarrow> (struct_tuple \<times> uchar list) option" where
  "read_struct e bs =
     Option.bind (read_cstring bs) (\<lambda>(name, bs).
     Option.bind (read_int32 e bs) (\<lambda>(size', bs).
     Option.bind (read_int32 e bs) (\<lambda>(fieldCount, bs).
     Option.bind (read_fields e (nat (sint fieldCount)) bs) (\<lambda>(Fs, bs).
       Some ((name, size', fieldCount, Fs), bs)))))"

fun read_structs :: "endian \<Rightarrow> nat \<Rightarrow> uchar list \<Rightarrow> (struct_tuple list \<times> uchar list) option" where
  "read_structs e 0 bs = Some ([], bs)"
| "read_structs e (Suc n) bs =
     (case read_struct e bs of
        None \<Rightarrow> None
      | Some (S, bs') \<Rightarrow>
          (case read_structs e n bs' of
             None \<Rightarrow> None
           | Some (Ss, bs'') \<Rightarrow> Some (S # Ss, bs'')))"

definition decode :: "endian \<Rightarrow> uchar list \<Rightarrow> (int32 \<times> struct_tuple list) option" where
  "decode e bs =
     (if take 4 bs = [0x53, 0x44, 0x4E, 0x41] then
        Option.bind (read_int32 e (drop 4 bs)) (\<lambda>(structCount, bs).
        Option.bind (read_structs e (nat (sint structCount)) bs) (\<lambda>(Ss, bs).
          if bs = [] then Some (structCount, Ss) else None))
      else None)"

text \<open>What a reader is to find: the catalog as counts, strings and numbers.\<close>

definition field_view :: "DNAField \<Rightarrow> field_tuple" where
  "field_view F =
     (c_str (name_f F), c_str (type_f F), offset_f F, size_f F, align_f F, array_f F,
      flags_f F)"

definition struct_view :: "DNAStruct \<Rightarrow> struct_tuple" where
  "struct_view S =
     (c_str (name_s S), size_s S, of_nat (length (Fields S)), map field_view (Fields S))"

definition catalog_view :: "SDNA \<Rightarrow> int32 \<times> struct_tuple list" where
  "catalog_view DNA = (of_nat (length (Types DNA)), map struct_view (Types DNA))"

text \<open>The counts of the catalog are \<^verbatim>\<open>int\<close>s: they stay below \<open>2 ^ 31\<close>.\<close>

definition counts_fit :: "SDNA \<Rightarrow> bool" where
  "counts_fit DNA \<longleftrightarrow>
     length (Types DNA) < 2 ^ 31 \<and> list_all (\<lambda>S. length (Fields S) < 2 ^ 31) (Types DNA)"

section \<open>Arrays as the specification words them\<close>

text \<open>
  The innermost element type of an array type and the number of its elements, all
  dimensions multiplied. clang lays an array out as its elements one after the other:
  the width of an array type is the number of elements times the width of the element
  type, and the innermost element is a whole number of bytes.
\<close>

fun innermost :: "qual_type \<Rightarrow> qual_type" where
  "innermost (ArrayType s i E n) = innermost E"
| "innermost T = T"

fun num_elements :: "qual_type \<Rightarrow> nat" where
  "num_elements (ArrayType s i E n) = n * num_elements E"
| "num_elements T = 1"

fun widths_ok :: "qual_type \<Rightarrow> bool" where
  "widths_ok (ArrayType s i E n) \<longleftrightarrow>
     unat (Width i) = n * unat (Width (getTypeInfo E)) \<and> widths_ok E"
| "widths_ok T \<longleftrightarrow> unat (Width (getTypeInfo T)) mod 8 = 0"

section \<open>What a run leaves in the catalog\<close>

text \<open>
  The entry that \<^verbatim>\<open>DNA_add_field\<close> hands to the body of the field loop, and the
  relation between a declaration and the entry that a run without failure makes of it.
  Only typedefs of records with a valid location make an entry.
\<close>

definition new_field :: "FieldDecl \<Rightarrow> DNAField" where
  "new_field FD = memset0_field\<lparr>name_f := strncpy 64 (getNameAsString FD)\<rparr>"

definition built_field :: "FieldDecl \<Rightarrow> DNAField \<Rightarrow> bool" where
  "built_field FD F \<longleftrightarrow> run_field FD (new_field FD) = Inr F"

definition is_record :: "TypedefDecl \<Rightarrow> bool" where
  "is_record TD = (case getAsRecordDecl TD of None \<Rightarrow> False | Some RD \<Rightarrow> getBeginLoc_isValid RD)"

definition built_struct :: "TypedefDecl \<Rightarrow> DNAStruct \<Rightarrow> bool" where
  "built_struct TD S =
     (case getAsRecordDecl TD of
        None \<Rightarrow> False
      | Some RD \<Rightarrow>
          name_s S = strncpy 64 (getAsString (getUnderlyingType TD)) \<and>
          size_s S = ucast (Width (getTypeInfo (getUnderlyingType TD)) div 8) \<and>
          list_all2 built_field (fields_rd RD) (Fields S))"

text \<open>
  The type string of a field as section 4.2 of the specification words it: the pointee
  of a pointer; for an array the innermost element, or its pointee when it is a pointer;
  the type itself otherwise. A string fits a buffer of 64 bytes when it has no NUL and
  leaves room for the terminator.
\<close>

definition type_name :: "qual_type \<Rightarrow> string" where
  "type_name T =
     (if isPointerType T then getAsString (getPointeeType T)
      else if isArrayType T then
        (if isPointerType (innermost T) then getAsString (getPointeeType (innermost T))
         else getAsString (innermost T))
      else getAsString T)"

definition fits :: "string \<Rightarrow> bool" where
  "fits s \<longleftrightarrow> NUL \<notin> set s \<and> length s < 64"

definition names_fit :: "TypedefDecl \<Rightarrow> bool" where
  "names_fit TD =
     (case getAsRecordDecl TD of
        None \<Rightarrow> True
      | Some RD \<Rightarrow>
          fits (getAsString (getUnderlyingType TD)) \<and>
          list_all (\<lambda>FD. fits (getNameAsString FD) \<and> fits (type_name (getType FD)))
            (fields_rd RD))"

section \<open>Example declarations\<close>

text \<open>
  The facts clang reports on an LP64 target for a few C declarations, used to run the
  definitions. Widths and alignments are in bits.
\<close>

definition int_type :: qual_type where
  "int_type = OtherType ''int'' \<lparr>Width = 32, Align = 32\<rparr>"

definition Node_type :: qual_type where
  "Node_type = OtherType ''Node'' \<lparr>Width = 64, Align = 64\<rparr>"

text \<open>\<^verbatim>\<open>Node *next;\<close>\<close>

definition next_field :: FieldDecl where
  "next_field = \<lparr>getNameAsString = ''next'',
     getType = PointerType ''Node *'' \<lparr>Width = 64, Align = 64\<rparr> Node_type,
     getFieldOffset = 0\<rparr>"

text \<open>\<^verbatim>\<open>int rows[2][3];\<close>\<close>

definition rows_field :: FieldDecl where
  "rows_field = \<lparr>getNameAsString = ''rows'',
     getType = ArrayType ''int[2][3]'' \<lparr>Width = 192, Align = 32\<rparr>
       (ArrayType ''int[3]'' \<lparr>Width = 96, Align = 32\<rparr> int_type 3) 2,
     getFieldOffset = 0\<rparr>"

text \<open>\<^verbatim>\<open>int (*block)[3];\<close>: a pointer to an array.\<close>

definition block_field :: FieldDecl where
  "block_field = \<lparr>getNameAsString = ''block'',
     getType = PointerType ''int (*)[3]'' \<lparr>Width = 64, Align = 64\<rparr>
       (ArrayType ''int[3]'' \<lparr>Width = 96, Align = 32\<rparr> int_type 3),
     getFieldOffset = 0\<rparr>"

text \<open>\<^verbatim>\<open>void (*notify)(int);\<close>: a pointer to a function.\<close>

definition notify_field :: FieldDecl where
  "notify_field = \<lparr>getNameAsString = ''notify'',
     getType = PointerType ''void (*)(int)'' \<lparr>Width = 64, Align = 64\<rparr>
       (FunctionType ''void (int)'' \<lparr>Width = 8, Align = 32\<rparr>),
     getFieldOffset = 0\<rparr>"

text \<open>\<^verbatim>\<open>Node *slots[5];\<close>: an array of pointers.\<close>

definition slots_field :: FieldDecl where
  "slots_field = \<lparr>getNameAsString = ''slots'',
     getType = ArrayType ''Node *[5]'' \<lparr>Width = 320, Align = 64\<rparr>
       (PointerType ''Node *'' \<lparr>Width = 64, Align = 64\<rparr> Node_type) 5,
     getFieldOffset = 0\<rparr>"

text \<open>\<^verbatim>\<open>typedef struct Node { Node *next; } Node;\<close>\<close>

definition Node_decl :: TypedefDecl where
  "Node_decl = \<lparr>getUnderlyingType = Node_type,
     getAsRecordDecl = Some \<lparr>getBeginLoc_isValid = True, fields_rd = [next_field]\<rparr>\<rparr>"

text \<open>The catalog that the run builds from \<open>Node_decl\<close>.\<close>

definition Node_catalog :: SDNA where
  "Node_catalog = \<lparr>Types = [\<lparr>name_s = strncpy 64 ''Node'', size_s = 8, Fields =
     [\<lparr>name_f = strncpy 64 ''next'', type_f = strncpy 64 ''Node'', offset_f = 0,
       size_f = 8, align_f = 8, array_f = 1, flags_f = 1\<rparr>]\<rparr>]\<rparr>"

text \<open>\<^verbatim>\<open>typedef struct Table { int rows[2][3]; Node *slots[5]; void (*notify)(int); } Table;\<close>
  with the offsets in bits, as \<^verbatim>\<open>getFieldOffset\<close> counts them.\<close>

definition Table_decl :: TypedefDecl where
  "Table_decl = \<lparr>getUnderlyingType = OtherType ''Table'' \<lparr>Width = 576, Align = 64\<rparr>,
     getAsRecordDecl = Some \<lparr>getBeginLoc_isValid = True,
       fields_rd = [rows_field, slots_field\<lparr>getFieldOffset := 192\<rparr>,
                    notify_field\<lparr>getFieldOffset := 512\<rparr>]\<rparr>\<rparr>"

text \<open>The catalog that the run builds from \<open>Table_decl\<close>.\<close>

definition Table_catalog :: SDNA where
  "Table_catalog = \<lparr>Types = [\<lparr>name_s = strncpy 64 ''Table'', size_s = 72, Fields =
     [\<lparr>name_f = strncpy 64 ''rows'', type_f = strncpy 64 ''int'', offset_f = 0,
       size_f = 24, align_f = 4, array_f = 6, flags_f = 0\<rparr>,
      \<lparr>name_f = strncpy 64 ''slots'', type_f = strncpy 64 ''Node'', offset_f = 192,
       size_f = 40, align_f = 8, array_f = 5, flags_f = 1\<rparr>,
      \<lparr>name_f = strncpy 64 ''notify'', type_f = strncpy 64 ''void (int)'', offset_f = 512,
       size_f = 8, align_f = 8, array_f = 1, flags_f = 5\<rparr>]\<rparr>]\<rparr>"

text \<open>A typedef whose name has 64 characters.\<close>

definition Long_decl :: TypedefDecl where
  "Long_decl = \<lparr>getUnderlyingType =
       OtherType (replicate 64 CHR ''a'') \<lparr>Width = 0, Align = 8\<rparr>,
     getAsRecordDecl = Some \<lparr>getBeginLoc_isValid = True, fields_rd = []\<rparr>\<rparr>"

section \<open>Properties\<close>

lemma length_strncpy: "length (strncpy n src) = n"
  by (induction n src rule: strncpy.induct) auto

lemma DNA_add_struct_Some:
  "DNA_add_struct True DNA name =
     (Some (length (Types DNA)),
      DNA\<lparr>Types := Types DNA @ [memset0_struct\<lparr>name_s := strncpy 64 name\<rparr>]\<rparr>)"
  by (simp add: DNA_add_struct_def Let_def)

lemma DNA_add_field_Some:
  "DNA_add_field True Struct name =
     (Some (length (Fields Struct)),
      Struct\<lparr>Fields := Fields Struct @ [memset0_field\<lparr>name_f := strncpy 64 name\<rparr>]\<rparr>)"
  by (simp add: DNA_add_field_def Let_def)

subsection \<open>Strings, bytes and the two directions of the format\<close>

lemma push_all_append: "push_all Buffer raw = Buffer @ raw"
  by (induction raw arbitrary: Buffer) simp_all

lemma ucast_and_ff: "(ucast (w AND 0xFF :: 32 word) :: 8 word) = ucast w"
proof -
  have m: "(0xFF :: 32 word) = mask 8" by (simp add: mask_eq_exp_minus_1)
  show ?thesis unfolding m by (rule bit_word_eqI) (simp add: bit_simps)
qed

lemma fmt_int32_object_bytes: "fmt_int32 e v = object_bytes e v"
  by (cases e) (simp_all add: fmt_int32_def ucast_and_ff)

lemma length_fmt_int32: "length (fmt_int32 e v) = 4"
  by (cases e) (simp_all add: fmt_int32_def)

lemma WriteIntOut_fmt: "WriteIntOut e Buffer v = Buffer @ fmt_int32 e v"
  by (simp add: WriteIntOut_def push_all_append fmt_int32_object_bytes)

lemma WriteStringOut_fmt: "WriteStringOut Buffer s = Buffer @ fmt_cstring s"
  by (simp add: WriteStringOut_def push_all_append fmt_cstring_def)

lemma WriteWordOut_magic: "WriteWordOut [] ''SDNA'' = [0x53, 0x44, 0x4E, 0x41]"
  by (simp add: WriteWordOut_def)

lemma string_of_buffer_eq:
  "string_of_buffer buf = (if NUL \<in> set buf then Inr (c_str buf) else Inl ReadPastBuffer)"
  by (simp add: string_of_buffer_def c_str_def)

lemma write_field_eq:
  "write_field e Buffer F =
     (if field_terminated F then Inr (Buffer @ fmt_field e F) else Inl ReadPastBuffer)"
  by (simp add: write_field_def and_then_def string_of_buffer_eq field_terminated_def
      WriteIntOut_fmt WriteStringOut_fmt fmt_field_def)

lemma write_fields_eq:
  "write_fields e Buffer Fs =
     (if list_all field_terminated Fs then Inr (Buffer @ concat (map (fmt_field e) Fs))
      else Inl ReadPastBuffer)"
  by (induction Fs arbitrary: Buffer) (simp_all add: write_field_eq)

lemma write_struct_eq:
  "write_struct e Buffer S =
     (if struct_terminated S then Inr (Buffer @ fmt_struct e S) else Inl ReadPastBuffer)"
  by (simp add: write_struct_def and_then_def string_of_buffer_eq struct_terminated_def
      WriteIntOut_fmt WriteStringOut_fmt fmt_struct_def write_fields_eq)

lemma write_structs_eq:
  "write_structs e Buffer Ss =
     (if list_all struct_terminated Ss then Inr (Buffer @ concat (map (fmt_struct e) Ss))
      else Inl ReadPastBuffer)"
  by (induction Ss arbitrary: Buffer) (simp_all add: write_struct_eq)

lemma encode_eq:
  "encode e DNA = (if terminated DNA then Inr (fmt_catalog e DNA) else Inl ReadPastBuffer)"
  by (simp add: encode_def WriteWordOut_magic WriteIntOut_fmt write_structs_eq terminated_def
      fmt_catalog_def)

lemma strncpy_short:
  "NUL \<notin> set s \<Longrightarrow> length s \<le> n \<Longrightarrow> strncpy n s = s @ replicate (n - length s) NUL"
proof (induction n s rule: strncpy.induct)
  case (3 n c src)
  then show ?case by (auto simp: Suc_diff_le)
qed simp_all

lemma strncpy_long:
  "NUL \<notin> set s \<Longrightarrow> n \<le> length s \<Longrightarrow> strncpy n s = take n s"
  by (induction n s rule: strncpy.induct) auto

lemma c_str_append_NUL: "NUL \<notin> set s \<Longrightarrow> c_str (s @ NUL # t) = s"
  by (induction s) (auto simp: c_str_def)

lemma c_str_strncpy:
  assumes "NUL \<notin> set s" "length s < n"
  shows "c_str (strncpy n s) = s" "NUL \<in> set (strncpy n s)"
proof -
  from assms(2) obtain k where k: "n - length s = Suc k"
    by (metis Suc_diff_Suc)
  from assms have "strncpy n s = s @ NUL # replicate k NUL"
    by (simp add: strncpy_short k)
  then show "c_str (strncpy n s) = s" "NUL \<in> set (strncpy n s)"
    using assms(1) by (simp_all add: c_str_append_NUL)
qed


lemma bytes_join:
  "(ucast (ucast v :: 8 word) :: 32 word) OR push_bit 8 (ucast (ucast (drop_bit 8 v) :: 8 word))
     OR push_bit 16 (ucast (ucast (drop_bit 16 v) :: 8 word))
     OR push_bit 24 (ucast (ucast (drop_bit 24 v) :: 8 word)) = v"
proof (rule bit_word_eqI)
  fix n assume n: "n < LENGTH(32)"
  consider "n < 8" | "8 \<le> n" "n < 16" | "16 \<le> n" "n < 24" | "24 \<le> n" "n < 32"
    using n by fastforce
  then show "bit ((ucast (ucast v :: 8 word) :: 32 word)
        OR push_bit 8 (ucast (ucast (drop_bit 8 v) :: 8 word))
        OR push_bit 16 (ucast (ucast (drop_bit 16 v) :: 8 word))
        OR push_bit 24 (ucast (ucast (drop_bit 24 v) :: 8 word))) n = bit v n"
    by cases (auto simp: bit_simps)
qed

lemma read_int32_fmt: "read_int32 e (fmt_int32 e v @ rest) = Some (v, rest)"
  by (cases e) (simp_all add: fmt_int32_object_bytes bytes_join)

lemma unat_of_char: "unat (of_char c :: 8 word) = of_char c"
proof -
  have "(of_char c :: nat) mod 256 = of_char c" by simp
  then have lt: "(of_char c :: nat) < 256"
    by (metis mod_less_divisor zero_less_numeral)
  have "(of_char c :: 8 word) = of_nat (of_char c)" by (simp add: of_nat_of_char)
  then have "unat (of_char c :: 8 word) = unat (of_nat (of_char c :: nat) :: 8 word)" by simp
  also have "\<dots> = of_char c" using lt by (simp add: unat_of_nat)
  finally show ?thesis .
qed

lemma of_char_eq_0: "(of_char c :: 8 word) = 0 \<longleftrightarrow> c = NUL"
proof
  assume "(of_char c :: 8 word) = 0"
  then have "unat (of_char c :: 8 word) = 0" by simp
  then have "(of_char c :: nat) = of_char NUL" by (simp add: unat_of_char)
  then show "c = NUL" by (simp only: of_char_eq_iff)
qed simp

lemma takeWhile_stop:
  "\<forall>x \<in> set xs. P x \<Longrightarrow> \<not> P y \<Longrightarrow> takeWhile P (xs @ y # ys) = xs"
  by (induction xs) simp_all

lemma dropWhile_stop:
  "\<forall>x \<in> set xs. P x \<Longrightarrow> \<not> P y \<Longrightarrow> dropWhile P (xs @ y # ys) = y # ys"
  by (induction xs) simp_all

lemma read_cstring_fmt:
  assumes "NUL \<notin> set s"
  shows "read_cstring (fmt_cstring s @ rest) = Some (s, rest)"
proof -
  let ?bs = "map of_char s :: uchar list"
  have nz: "\<forall>b \<in> set ?bs. b \<noteq> 0" using assms by (auto simp: of_char_eq_0)
  have tw: "takeWhile (\<lambda>b. b \<noteq> 0) (?bs @ 0 # rest) = ?bs"
    using nz by (simp add: takeWhile_stop)
  have dw: "dropWhile (\<lambda>b. b \<noteq> 0) (?bs @ 0 # rest) = 0 # rest"
    using nz by (simp add: dropWhile_stop)
  have chars: "map (\<lambda>b. char_of (unat b)) ?bs = s"
    by (simp add: unat_of_char comp_def)
  show ?thesis
    unfolding read_cstring_def fmt_cstring_def using tw dw chars by simp
qed

lemma NUL_notin_c_str: "NUL \<notin> set (c_str buf)"
  unfolding c_str_def by (induction buf) auto

lemma read_field_fmt: "read_field e (fmt_field e F @ rest) = Some (field_view F, rest)"
  by (simp add: read_field_def fmt_field_def field_view_def read_cstring_fmt NUL_notin_c_str
      read_int32_fmt)

lemma read_fields_fmt:
  "read_fields e (length Fs) (concat (map (fmt_field e) Fs) @ rest) = Some (map field_view Fs, rest)"
  by (induction Fs) (simp_all add: read_field_fmt)

lemma sint_count: "n < 2 ^ 31 \<Longrightarrow> nat (sint (of_nat n :: int32)) = n"
proof -
  assume n: "n < 2 ^ 31"
  have "sint (of_nat n :: int32) = signed_take_bit 31 (int n)"
    by (simp add: signed_of_nat)
  also have "\<dots> = int n"
    using n by (simp add: signed_take_bit_int_eq_self)
  finally show ?thesis by simp
qed

lemma read_struct_fmt:
  "length (Fields S) < 2 ^ 31 \<Longrightarrow>
   read_struct e (fmt_struct e S @ rest) = Some (struct_view S, rest)"
  by (simp add: read_struct_def fmt_struct_def struct_view_def read_cstring_fmt NUL_notin_c_str
      read_int32_fmt sint_count read_fields_fmt)

lemma read_structs_fmt:
  "list_all (\<lambda>S. length (Fields S) < 2 ^ 31) Ss \<Longrightarrow>
   read_structs e (length Ss) (concat (map (fmt_struct e) Ss) @ rest) = Some (map struct_view Ss, rest)"
  by (induction Ss) (simp_all add: read_struct_fmt)

lemma decode_fmt:
  "counts_fit DNA \<Longrightarrow> decode e (fmt_catalog e DNA) = Some (catalog_view DNA)"
  using read_structs_fmt [of "Types DNA" e "[]"]
  by (simp add: decode_def fmt_catalog_def catalog_view_def counts_fit_def read_int32_fmt sint_count)

subsection \<open>The body of the field loop, case by case\<close>

lemma find_element_innermost:
  "isArrayType T \<Longrightarrow> getElementType (find_element T) = innermost T"
proof (induction T rule: find_element.induct)
  case (1 AT)
  then obtain s i E n where AT: "AT = ArrayType s i E n" by (cases AT) simp_all
  show ?case
  proof (cases "isArrayType E")
    case True
    with 1 AT show ?thesis by (subst find_element.simps) simp
  next
    case False
    then have "innermost E = E" by (cases E) simp_all
    with False AT show ?thesis by (subst find_element.simps) simp
  qed
qed

lemma innermost_not_array: "\<not> isArrayType (innermost T)"
  by (induction T) simp_all

lemma widths_ok_total:
  "widths_ok T \<Longrightarrow>
   unat (Width (getTypeInfo T)) = num_elements T * unat (Width (getTypeInfo (innermost T)))"
  by (induction T) simp_all

lemma widths_ok_innermost: "widths_ok T \<Longrightarrow> unat (Width (getTypeInfo (innermost T))) mod 8 = 0"
  by (induction T) simp_all

lemma array_count:
  assumes "widths_ok T" and "Width (getTypeInfo (innermost T)) div 8 \<noteq> 0"
  shows "(ucast ((Width (getTypeInfo T) div 8) div (Width (getTypeInfo (innermost T)) div 8)) :: int32)
         = of_nat (num_elements T)"
proof -
  let ?W = "Width (getTypeInfo T)" and ?w = "Width (getTypeInfo (innermost T))"
  obtain b where b: "unat ?w = 8 * b"
    using widths_ok_innermost [OF assms(1)] by (auto simp: mod_eq_0_iff_dvd)
  have "unat (?w div 8) \<noteq> 0" using assms(2) by (simp add: unat_eq_0)
  then have b0: "b \<noteq> 0" using b by (simp add: unat_div)
  have W: "unat ?W = num_elements T * (8 * b)"
    using widths_ok_total [OF assms(1)] b by simp
  have "unat ((?W div 8) div (?w div 8)) = (unat ?W div 8) div (unat ?w div 8)"
    by (simp add: unat_div)
  also have "\<dots> = num_elements T" using W b b0 by simp
  finally have "unat ((?W div 8) div (?w div 8)) = num_elements T" .
  then show ?thesis by (metis of_nat_unat)
qed

lemma flag_bits:
  "(f OR DNA_FIELD_IS_POINTER) AND DNA_FIELD_IS_ARRAY = f AND DNA_FIELD_IS_ARRAY"
  "(f OR DNA_FIELD_IS_FUNCTION) AND DNA_FIELD_IS_ARRAY = f AND DNA_FIELD_IS_ARRAY"
  "(f OR DNA_FIELD_IS_POINTER) AND DNA_FIELD_IS_POINTER = DNA_FIELD_IS_POINTER"
  "((f OR DNA_FIELD_IS_POINTER) OR DNA_FIELD_IS_FUNCTION) AND DNA_FIELD_IS_ARRAY = f AND DNA_FIELD_IS_ARRAY"
  "((f OR DNA_FIELD_IS_POINTER) OR DNA_FIELD_IS_FUNCTION) AND DNA_FIELD_IS_POINTER = DNA_FIELD_IS_POINTER"
  "((f OR DNA_FIELD_IS_POINTER) OR DNA_FIELD_IS_FUNCTION) AND DNA_FIELD_IS_FUNCTION = DNA_FIELD_IS_FUNCTION"
  "DNA_FIELD_IS_POINTER \<noteq> 0" "DNA_FIELD_IS_FUNCTION \<noteq> 0"
  by (simp_all add: DNA_FIELD_IS_POINTER_def DNA_FIELD_IS_ARRAY_def DNA_FIELD_IS_FUNCTION_def
      word_ao_dist word_bw_assocs)


lemma run_field_pointer:
  assumes "isPointerType (getType FD)"
  shows "run_field FD field = Inr (field\<lparr>
      size_f := ucast (Width (getTypeInfo (getType FD)) div 8),
      align_f := ucast (ucast (Align (getTypeInfo (getType FD)) div 8) :: size_t),
      offset_f := ucast (getFieldOffset FD),
      array_f := 1,
      flags_f := (if isFunctionPointerType (getType FD)
                  then (flags_f field OR DNA_FIELD_IS_POINTER) OR DNA_FIELD_IS_FUNCTION
                  else flags_f field OR DNA_FIELD_IS_POINTER),
      type_f := strncpy 64 (getAsString (getPointeeType (getType FD)))\<rparr>)"
  using assms by (simp add: run_field_def Let_def)

lemma isFunctionPointerType_isPointerType: "isFunctionPointerType T \<Longrightarrow> isPointerType T"
  by (cases T) simp_all

lemma isArrayType_not_pointer: "isArrayType T \<Longrightarrow> \<not> isPointerType T \<and> \<not> isFunctionPointerType T"
  by (cases T) simp_all

lemma run_field_array:
  assumes "isArrayType (getType FD)"
    and "Width (getTypeInfo (innermost (getType FD))) div 8 \<noteq> 0"
  shows "run_field FD field = Inr (field\<lparr>
      size_f := ucast (Width (getTypeInfo (getType FD)) div 8),
      align_f := ucast (ucast (Align (getTypeInfo (getType FD)) div 8) :: size_t),
      offset_f := ucast (getFieldOffset FD),
      array_f := ucast ((Width (getTypeInfo (getType FD)) div 8) div
                        (Width (getTypeInfo (innermost (getType FD))) div 8)),
      flags_f := (if isPointerType (innermost (getType FD))
                  then flags_f field OR DNA_FIELD_IS_POINTER else flags_f field),
      type_f := strncpy 64 (if isPointerType (innermost (getType FD))
                  then getAsString (getPointeeType (innermost (getType FD)))
                  else getAsString (innermost (getType FD)))\<rparr>)"
  using assms isArrayType_not_pointer [OF assms(1)]
  by (simp add: run_field_def Let_def find_element_innermost)

lemma run_field_array_zero:
  assumes "isArrayType (getType FD)"
    and "Width (getTypeInfo (innermost (getType FD))) div 8 = 0"
  shows "run_field FD field = Inl DivisionByZero"
  using assms isArrayType_not_pointer [OF assms(1)]
  by (simp add: run_field_def Let_def find_element_innermost)

lemma run_field_plain:
  assumes "\<not> isPointerType (getType FD)" and "\<not> isArrayType (getType FD)"
  shows "run_field FD field = Inr (field\<lparr>
      size_f := ucast (Width (getTypeInfo (getType FD)) div 8),
      align_f := ucast (ucast (Align (getTypeInfo (getType FD)) div 8) :: size_t),
      offset_f := ucast (getFieldOffset FD),
      array_f := 1,
      type_f := strncpy 64 (getAsString (getType FD))\<rparr>)"
  using assms isFunctionPointerType_isPointerType [of "getType FD"]
  by (auto simp add: run_field_def Let_def)

subsection \<open>From the declarations to the catalog\<close>

lemma run_fields_Inr:
  assumes "run_fields heap FDs S = Inr (heap', S')"
  shows "name_s S' = name_s S \<and> size_s S' = size_s S \<and>
    (\<exists>Fs. Fields S' = Fields S @ Fs \<and>
       list_all2 (\<lambda>FD F. run_field FD (memset0_field\<lparr>name_f := strncpy 64 (getNameAsString FD)\<rparr>)
                   = Inr F) FDs Fs)"
  using assms
proof (induction FDs arbitrary: heap S)
  case Nil
  then show ?case by simp
next
  case (Cons FD FDs)
  let ?fresh = "memset0_field\<lparr>name_f := strncpy 64 (getNameAsString FD)\<rparr>"
  from Cons.prems have ok: "fst (realloc heap)"
    by (cases "fst (realloc heap)") (simp_all add: DNA_add_field_def)
  from Cons.prems ok obtain F where
    F: "run_field FD ?fresh = Inr F" and
    rest: "run_fields (snd (realloc heap)) FDs (S\<lparr>Fields := Fields S @ [F]\<rparr>) = Inr (heap', S')"
    by (auto simp: DNA_add_field_Some split: sum.splits)
  from Cons.IH [OF rest] obtain Fs where
    "name_s S' = name_s S" "size_s S' = size_s S" "Fields S' = (Fields S @ [F]) @ Fs"
    "list_all2 (\<lambda>FD F. run_field FD (memset0_field\<lparr>name_f := strncpy 64 (getNameAsString FD)\<rparr>)
                   = Inr F) FDs Fs"
    by auto
  with F show ?case by (intro conjI exI [of _ "F # Fs"]) simp_all
qed

lemma run_fields_built:
  assumes "run_fields heap FDs S = Inr (heap', S')"
  shows "name_s S' = name_s S \<and> size_s S' = size_s S \<and>
    (\<exists>Fs. Fields S' = Fields S @ Fs \<and> list_all2 built_field FDs Fs)"
  using run_fields_Inr [OF assms] by (simp add: built_field_def [abs_def] new_field_def)

lemma run_built:
  assumes "run TD (heap, DNA) = Inr (heap', DNA')"
  shows "if is_record TD then \<exists>S. Types DNA' = Types DNA @ [S] \<and> built_struct TD S
         else Types DNA' = Types DNA"
proof (cases "getAsRecordDecl TD")
  case None
  with assms show ?thesis by (simp add: run_def is_record_def)
next
  case (Some RD)
  show ?thesis
  proof (cases "getBeginLoc_isValid RD")
    case False
    with Some assms show ?thesis by (simp add: run_def is_record_def)
  next
    case True
    from assms Some True have ok: "fst (realloc heap)"
      by (cases "fst (realloc heap)") (simp_all add: run_def DNA_add_struct_def)
    from assms Some True ok obtain S' where
      r: "run_fields (snd (realloc heap)) (fields_rd RD)
         \<lparr>name_s = strncpy 64 (getAsString (getUnderlyingType TD)),
          size_s = ucast (Width (getTypeInfo (getUnderlyingType TD)) div 8),
          Fields = []\<rparr> = Inr (heap', S')"
      and T: "Types DNA' = Types DNA @ [S']"
      by (auto simp: run_def Let_def DNA_add_struct_Some and_then_def memset0_struct_def
          split: sum.splits prod.splits)
    from run_fields_built [OF r] have "built_struct TD S'"
      by (auto simp: built_struct_def Some)
    with T Some True show ?thesis by (auto simp: is_record_def)
  qed
qed

lemma execute_built:
  "execute TDs st = Inr st' \<Longrightarrow>
   \<exists>Ss. Types (snd st') = Types (snd st) @ Ss \<and> list_all2 built_struct (filter is_record TDs) Ss"
proof (induction TDs arbitrary: st)
  case Nil
  then show ?case by simp
next
  case (Cons TD TDs)
  from Cons.prems obtain st1 where r: "run TD st = Inr st1" and e: "execute TDs st1 = Inr st'"
    by (auto split: sum.splits)
  from Cons.IH [OF e] obtain Ss where
    Ss: "Types (snd st') = Types (snd st1) @ Ss" "list_all2 built_struct (filter is_record TDs) Ss"
    by blast
  from run_built [of TD "fst st" "snd st" "fst st1" "snd st1"] r
  have b: "if is_record TD then \<exists>S. Types (snd st1) = Types (snd st) @ [S] \<and> built_struct TD S
         else Types (snd st1) = Types (snd st)" by simp
  show ?case
  proof (cases "is_record TD")
    case True
    with b obtain S where "Types (snd st1) = Types (snd st) @ [S]" "built_struct TD S" by auto
    with Ss True show ?thesis by (intro exI [of _ "S # Ss"]) simp
  next
    case False
    with b Ss show ?thesis by (intro exI [of _ Ss]) simp
  qed
qed

lemma list_all2_right:
  "list_all2 P xs ys \<Longrightarrow> y \<in> set ys \<Longrightarrow> \<exists>x \<in> set xs. P x y"
  by (induction rule: list_all2_induct) auto

lemma new_field_flags: "flags_f (new_field FD) = 0"
  by (simp add: new_field_def memset0_field_def)

lemma run_field_flags:
  assumes "run_field FD field = Inr F" and "flags_f field = 0"
  shows "flags_f F \<in> {0, DNA_FIELD_IS_POINTER, DNA_FIELD_IS_POINTER OR DNA_FIELD_IS_FUNCTION}"
proof -
  consider "isPointerType (getType FD)"
    | "isArrayType (getType FD)" "Width (getTypeInfo (innermost (getType FD))) div 8 \<noteq> 0"
    | "isArrayType (getType FD)" "Width (getTypeInfo (innermost (getType FD))) div 8 = 0"
    | "\<not> isPointerType (getType FD)" "\<not> isArrayType (getType FD)"
    by blast
  then show ?thesis
  proof cases
    case 1
    from assms show ?thesis unfolding run_field_pointer [OF 1] by auto
  next
    case 2
    from assms show ?thesis unfolding run_field_array [OF 2] by auto
  next
    case 3
    from assms show ?thesis unfolding run_field_array_zero [OF 3] by simp
  next
    case 4
    from assms show ?thesis unfolding run_field_plain [OF 4] by auto
  qed
qed

lemma flag_values_no_array:
  "f \<in> {0, DNA_FIELD_IS_POINTER, DNA_FIELD_IS_POINTER OR DNA_FIELD_IS_FUNCTION} \<Longrightarrow>
   f AND DNA_FIELD_IS_ARRAY = 0"
  by (auto simp: DNA_FIELD_IS_POINTER_def DNA_FIELD_IS_ARRAY_def DNA_FIELD_IS_FUNCTION_def)

lemma run_field_type_name:
  assumes "run_field FD field = Inr F"
  shows "type_f F = strncpy 64 (type_name (getType FD)) \<and> name_f F = name_f field"
proof -
  consider "isPointerType (getType FD)"
    | "isArrayType (getType FD)" "Width (getTypeInfo (innermost (getType FD))) div 8 \<noteq> 0"
    | "isArrayType (getType FD)" "Width (getTypeInfo (innermost (getType FD))) div 8 = 0"
    | "\<not> isPointerType (getType FD)" "\<not> isArrayType (getType FD)"
    by blast
  then show ?thesis
  proof cases
    case 1
    from assms show ?thesis unfolding run_field_pointer [OF 1] by (auto simp: type_name_def 1)
  next
    case 2
    from assms isArrayType_not_pointer [OF 2(1)] show ?thesis
      unfolding run_field_array [OF 2] by (auto simp: type_name_def 2)
  next
    case 3
    from assms show ?thesis unfolding run_field_array_zero [OF 3] by simp
  next
    case 4
    from assms show ?thesis unfolding run_field_plain [OF 4] by (auto simp: type_name_def 4)
  qed
qed

lemma fits_terminated: "fits s \<Longrightarrow> NUL \<in> set (strncpy 64 s) \<and> c_str (strncpy 64 s) = s"
  by (simp add: fits_def c_str_strncpy)

lemma built_struct_terminated:
  assumes "built_struct TD S" and "names_fit TD"
  shows "struct_terminated S"
proof -
  from assms(1) obtain RD where RD: "getAsRecordDecl TD = Some RD"
    and n: "name_s S = strncpy 64 (getAsString (getUnderlyingType TD))"
    and fs: "list_all2 built_field (fields_rd RD) (Fields S)"
    by (auto simp: built_struct_def split: option.splits)
  from assms(2) RD have fn: "fits (getAsString (getUnderlyingType TD))"
    and ff: "\<forall>FD \<in> set (fields_rd RD). fits (getNameAsString FD) \<and> fits (type_name (getType FD))"
    by (simp_all add: names_fit_def list_all_iff)
  have "field_terminated F" if "F \<in> set (Fields S)" for F
  proof -
    from that fs obtain FD where FD: "FD \<in> set (fields_rd RD)" "built_field FD F"
      by (blast dest: list_all2_right)
    from FD(2) have "run_field FD (new_field FD) = Inr F" by (simp add: built_field_def)
    from run_field_type_name [OF this]
    have "type_f F = strncpy 64 (type_name (getType FD))"
      "name_f F = strncpy 64 (getNameAsString FD)"
      by (simp_all add: new_field_def)
    with ff FD(1) show ?thesis by (simp add: field_terminated_def fits_terminated)
  qed
  with n fn show ?thesis by (simp add: struct_terminated_def fits_terminated list_all_iff)
qed

lemma execute_terminated:
  assumes "execute TDs (heap, \<lparr>Types = []\<rparr>) = Inr (heap', DNA)"
    and "list_all names_fit TDs"
  shows "terminated DNA"
proof -
  from execute_built [OF assms(1)] have b: "list_all2 built_struct (filter is_record TDs) (Types DNA)"
    by simp
  have "struct_terminated S" if "S \<in> set (Types DNA)" for S
  proof -
    from that b obtain TD where "TD \<in> set (filter is_record TDs)" "built_struct TD S"
      by (blast dest: list_all2_right)
    with assms(2) show ?thesis by (auto simp: list_all_iff intro: built_struct_terminated)
  qed
  then show ?thesis by (simp add: terminated_def list_all_iff)
qed

subsection \<open>The example catalog\<close>

lemma Node_catalog_terminated: "terminated Node_catalog"
  by (simp add: Node_catalog_def terminated_def struct_terminated_def field_terminated_def
      c_str_strncpy(2))

lemma fmt_Node_catalog_LE:
  "fmt_catalog LittleEndian Node_catalog =
     [0x53, 0x44, 0x4E, 0x41, 1, 0, 0, 0, 0x4E, 0x6F, 0x64, 0x65, 0, 8, 0, 0, 0, 1, 0, 0, 0,
      0x6E, 0x65, 0x78, 0x74, 0, 0x4E, 0x6F, 0x64, 0x65, 0, 0, 0, 0, 0, 8, 0, 0, 0,
      8, 0, 0, 0, 1, 0, 0, 0, 1, 0, 0, 0]"
  by (simp add: Node_catalog_def fmt_catalog_def fmt_struct_def fmt_field_def fmt_cstring_def
      fmt_int32_object_bytes c_str_strncpy(1))

lemma Node_catalog_counts_fit: "counts_fit Node_catalog"
  by (simp add: Node_catalog_def counts_fit_def)

lemma catalog_view_Node:
  "catalog_view Node_catalog = (1, [(''Node'', 8, 1, [(''next'', ''Node'', 0, 8, 8, 1, 1)])])"
  by (simp add: Node_catalog_def catalog_view_def struct_view_def field_view_def c_str_strncpy(1))


lemma execute_Table: "execute [Table_decl] ([], \<lparr>Types = []\<rparr>) = Inr ([], Table_catalog)"
  by (simp add: Table_decl_def run_def DNA_add_struct_Some DNA_add_field_Some and_then_def
      Node_type_def int_type_def rows_field_def slots_field_def notify_field_def
      run_field_def memset0_struct_def memset0_field_def find_element.simps
      Table_catalog_def DNA_FIELD_IS_POINTER_def DNA_FIELD_IS_FUNCTION_def)

lemma Long_name: "strncpy 64 (replicate 64 CHR ''a'') = replicate 64 CHR ''a''"
  by (simp add: strncpy_long)

lemma execute_Long:
  "execute [Long_decl] ([], \<lparr>Types = []\<rparr>) =
     Inr ([], \<lparr>Types = [\<lparr>name_s = replicate 64 CHR ''a'', size_s = 0, Fields = []\<rparr>]\<rparr>)"
  by (simp add: Long_decl_def run_def DNA_add_struct_Some and_then_def memset0_struct_def
      Long_name)

lemma run_alloc_failure:
  "is_record TD \<Longrightarrow> run TD (False # heap, DNA) = Inl NullDereference"
  by (auto simp: run_def is_record_def DNA_add_struct_def split: option.splits)

lemma run_fields_alloc_failure:
  "run_fields (False # heap) (FD # FDs) S = Inl NullDereference"
  by (simp add: DNA_add_field_def)



subsection \<open>The encoder\<close>

text \<open>
  C1. For a catalog whose buffers all hold a C string, the bytes that \<^verbatim>\<open>main\<close> collects
  are exactly the format: the four bytes \<^verbatim>\<open>53 44 4E 41\<close> with no terminator, the number
  of structs, and for every struct in order its name with one zero byte, its size, its
  number of fields, and for every field in order its name and type, each with one zero
  byte, and offset, size, align, array and flags. Every number takes four bytes, in the
  byte order of the machine. (A buffer without a NUL is read past its end,
  \<open>encode_eq\<close>.)
\<close>

theorem encode_format:
  assumes "terminated DNA"
  shows "encode e DNA = Inr (fmt_catalog e DNA) \<and> (\<forall>v. length (fmt_int32 e v) = 4)"
  using assms by (simp add: encode_eq length_fmt_int32)

theorem encode_format_witness:
  "terminated Node_catalog \<and>
   encode LittleEndian Node_catalog =
     Inr [0x53, 0x44, 0x4E, 0x41, 1, 0, 0, 0, 0x4E, 0x6F, 0x64, 0x65, 0, 8, 0, 0, 0, 1, 0, 0, 0,
      0x6E, 0x65, 0x78, 0x74, 0, 0x4E, 0x6F, 0x64, 0x65, 0, 0, 0, 0, 0, 8, 0, 0, 0,
      8, 0, 0, 0, 1, 0, 0, 0, 1, 0, 0, 0]"
  using encode_format [OF Node_catalog_terminated, of LittleEndian]
  by (simp add: Node_catalog_terminated fmt_Node_catalog_LE)

subsection \<open>Reading back what was written\<close>

text \<open>
  C2. For a catalog whose names and type strings fit their buffers (every buffer holds
  its terminator; the string is what stands before it, so it has no NUL inside) and whose
  counts are \<^verbatim>\<open>int\<close>s, the encoder returns bytes, and the reader of the format finds in
  them the same number of structs, and for every struct in order the same name, size and
  number of fields, and for every field in order the same name, type, offset, size,
  align, array and flags. By \<open>c_str_strncpy\<close> a string without NUL of fewer than 64
  characters is stored with its terminator and read back unchanged.
\<close>

theorem encode_decode_roundtrip:
  assumes "terminated DNA" and "counts_fit DNA"
  shows "\<exists>bytes. encode e DNA = Inr bytes \<and> decode e bytes = Some (catalog_view DNA)"
  using assms by (simp add: encode_eq decode_fmt)

theorem encode_decode_roundtrip_witness:
  "terminated Node_catalog \<and> counts_fit Node_catalog \<and>
   (\<exists>bytes. encode BigEndian Node_catalog = Inr bytes \<and>
      decode BigEndian bytes = Some (1, [(''Node'', 8, 1, [(''next'', ''Node'', 0, 8, 8, 1, 1)])]))"
  using encode_decode_roundtrip [OF Node_catalog_terminated Node_catalog_counts_fit, of BigEndian]
  by (simp add: Node_catalog_terminated Node_catalog_counts_fit catalog_view_Node)

subsection \<open>Classification of a field\<close>

text \<open>
  C3. For a field of array type whose innermost element has a byte size other than zero,
  the loop of the classification ends at the innermost element type, which is no array;
  \<open>array\<close> is the byte size of the field divided by the byte size of that element;
  when the widths are those of an array layout, this is the number of elements with all
  dimensions multiplied (6 for \<^verbatim>\<open>int rows[2][3]\<close>); and when the innermost element is
  no pointer, \<open>type\<close> is its name and no flag is added.
\<close>

theorem array_field_collapses:
  assumes "isArrayType (getType FD)"
    and "Width (getTypeInfo (innermost (getType FD))) div 8 \<noteq> 0"
  shows "\<exists>F. run_field FD field = Inr F
     \<and> getElementType (find_element (getType FD)) = innermost (getType FD)
     \<and> \<not> isArrayType (innermost (getType FD))
     \<and> array_f F = ucast ((Width (getTypeInfo (getType FD)) div 8) div
                          (Width (getTypeInfo (innermost (getType FD))) div 8))
     \<and> (widths_ok (getType FD) \<longrightarrow> array_f F = of_nat (num_elements (getType FD)))
     \<and> (\<not> isPointerType (innermost (getType FD)) \<longrightarrow>
            type_f F = strncpy 64 (getAsString (innermost (getType FD)))
          \<and> (fits (getAsString (innermost (getType FD))) \<longrightarrow>
                c_str (type_f F) = getAsString (innermost (getType FD)))
          \<and> flags_f F = flags_f field)"
  using assms
  by (simp add: run_field_array find_element_innermost innermost_not_array array_count
      fits_terminated)

theorem array_field_collapses_witness:
  "isArrayType (getType rows_field)
   \<and> Width (getTypeInfo (innermost (getType rows_field))) div 8 \<noteq> 0
   \<and> widths_ok (getType rows_field)
   \<and> num_elements (getType rows_field) = 6
   \<and> (\<exists>F. run_field rows_field (memset0_field\<lparr>name_f := strncpy 64 ''rows''\<rparr>) = Inr F
        \<and> array_f F = 6 \<and> type_f F = strncpy 64 ''int'' \<and> c_str (type_f F) = ''int''
        \<and> flags_f F = 0)"
proof -
  have a: "isArrayType (getType rows_field)" by (simp add: rows_field_def)
  have b: "Width (getTypeInfo (innermost (getType rows_field))) div 8 \<noteq> 0"
    by (simp add: rows_field_def int_type_def)
  have c: "widths_ok (getType rows_field)" by (simp add: rows_field_def int_type_def)
  have d: "num_elements (getType rows_field) = 6" by (simp add: rows_field_def int_type_def)
  have e: "innermost (getType rows_field) = int_type" by (simp add: rows_field_def int_type_def)
  have f: "\<not> isPointerType int_type" "getAsString int_type = ''int''" "fits ''int''"
    by (simp_all add: int_type_def fits_def)
  from array_field_collapses [OF a b, of "memset0_field\<lparr>name_f := strncpy 64 ''rows''\<rparr>"]
  show ?thesis using a b c d e f by (auto simp: memset0_field_def)
qed

text \<open>
  C4. For a field whose type is a pointer or a function pointer, whatever the pointee
  (an array too), the classification takes the pointer branch: \<open>array\<close> is 1, the
  pointer flag is set, the function flag too for a function pointer, and \<open>type\<close> is
  the name of the pointee.
\<close>

theorem pointer_field_precedence:
  assumes "isPointerType (getType FD) \<or> isFunctionPointerType (getType FD)"
  shows "\<exists>F. run_field FD field = Inr F
     \<and> array_f F = 1
     \<and> flags_f F AND DNA_FIELD_IS_POINTER = DNA_FIELD_IS_POINTER
     \<and> (isFunctionPointerType (getType FD) \<longrightarrow>
           flags_f F AND DNA_FIELD_IS_FUNCTION = DNA_FIELD_IS_FUNCTION)
     \<and> flags_f F = (if isFunctionPointerType (getType FD)
                     then (flags_f field OR DNA_FIELD_IS_POINTER) OR DNA_FIELD_IS_FUNCTION
                     else flags_f field OR DNA_FIELD_IS_POINTER)
     \<and> type_f F = strncpy 64 (getAsString (getPointeeType (getType FD)))
     \<and> (fits (getAsString (getPointeeType (getType FD))) \<longrightarrow>
           c_str (type_f F) = getAsString (getPointeeType (getType FD)))"
proof -
  from assms have p: "isPointerType (getType FD)"
    using isFunctionPointerType_isPointerType by blast
  show ?thesis by (simp add: run_field_pointer [OF p] flag_bits fits_terminated)
qed

theorem pointer_field_precedence_witness:
  "(isPointerType (getType block_field) \<or> isFunctionPointerType (getType block_field))
   \<and> isArrayType (getPointeeType (getType block_field))
   \<and> (\<exists>F. run_field block_field (memset0_field\<lparr>name_f := strncpy 64 ''block''\<rparr>) = Inr F
        \<and> array_f F = 1 \<and> flags_f F = 1 \<and> type_f F = strncpy 64 ''int[3]''
        \<and> c_str (type_f F) = ''int[3]'')"
proof -
  have a: "isPointerType (getType block_field) \<or> isFunctionPointerType (getType block_field)"
    by (simp add: block_field_def)
  have b: "isArrayType (getPointeeType (getType block_field))"
    "\<not> isFunctionPointerType (getType block_field)"
    "getAsString (getPointeeType (getType block_field)) = ''int[3]''"
    "fits ''int[3]''"
    by (simp_all add: block_field_def fits_def)
  from pointer_field_precedence [OF a, of "memset0_field\<lparr>name_f := strncpy 64 ''block''\<rparr>"]
  show ?thesis using a b by (auto simp: memset0_field_def DNA_FIELD_IS_POINTER_def)
qed

text \<open>
  C5. For an array field whose innermost element type is a pointer, laid out as an array
  of \<open>N\<close> elements of a byte size other than zero, the classification sets the pointer
  flag, \<open>array\<close> is \<open>N\<close>, and \<open>type\<close> is the name of the pointee of the element.
\<close>

theorem pointer_array_field:
  assumes "isArrayType (getType FD)"
    and "isPointerType (innermost (getType FD))"
    and "widths_ok (getType FD)"
    and "Width (getTypeInfo (innermost (getType FD))) div 8 \<noteq> 0"
  shows "\<exists>F. run_field FD field = Inr F
     \<and> flags_f F AND DNA_FIELD_IS_POINTER = DNA_FIELD_IS_POINTER
     \<and> flags_f F = flags_f field OR DNA_FIELD_IS_POINTER
     \<and> array_f F = of_nat (num_elements (getType FD))
     \<and> type_f F = strncpy 64 (getAsString (getPointeeType (innermost (getType FD))))
     \<and> (fits (getAsString (getPointeeType (innermost (getType FD)))) \<longrightarrow>
           c_str (type_f F) = getAsString (getPointeeType (innermost (getType FD))))"
  using assms by (simp add: run_field_array array_count flag_bits fits_terminated)

theorem pointer_array_field_witness:
  "isArrayType (getType slots_field)
   \<and> isPointerType (innermost (getType slots_field))
   \<and> widths_ok (getType slots_field)
   \<and> Width (getTypeInfo (innermost (getType slots_field))) div 8 \<noteq> 0
   \<and> num_elements (getType slots_field) = 5
   \<and> (\<exists>F. run_field slots_field (memset0_field\<lparr>name_f := strncpy 64 ''slots''\<rparr>) = Inr F
        \<and> array_f F = 5 \<and> flags_f F = 1 \<and> type_f F = strncpy 64 ''Node''
        \<and> c_str (type_f F) = ''Node'')"
proof -
  have a: "isArrayType (getType slots_field)" by (simp add: slots_field_def)
  have b: "isPointerType (innermost (getType slots_field))" by (simp add: slots_field_def)
  have c: "widths_ok (getType slots_field)" by (simp add: slots_field_def)
  have d: "Width (getTypeInfo (innermost (getType slots_field))) div 8 \<noteq> 0"
    by (simp add: slots_field_def)
  have e: "num_elements (getType slots_field) = 5"
    "getAsString (getPointeeType (innermost (getType slots_field))) = ''Node''"
    "fits ''Node''"
    by (simp_all add: slots_field_def Node_type_def fits_def)
  from pointer_array_field [OF a b c d, of "memset0_field\<lparr>name_f := strncpy 64 ''slots''\<rparr>"]
  show ?thesis using a b c d e by (auto simp: memset0_field_def DNA_FIELD_IS_POINTER_def)
qed

subsection \<open>The flags of a catalog\<close>

text \<open>
  C9. In every catalog that a run builds from the empty catalog, every field has the
  array bit clear: its flags are 0, the pointer flag, or the pointer flag with the
  function flag.
\<close>

theorem is_array_never_set:
  assumes "execute TDs (heap, \<lparr>Types = []\<rparr>) = Inr (heap', DNA)"
  shows "\<forall>S \<in> set (Types DNA). \<forall>F \<in> set (Fields S).
           flags_f F AND DNA_FIELD_IS_ARRAY = 0 \<and>
           flags_f F \<in> {0, DNA_FIELD_IS_POINTER, DNA_FIELD_IS_POINTER OR DNA_FIELD_IS_FUNCTION}"
proof (intro ballI)
  fix S F assume S: "S \<in> set (Types DNA)" and F: "F \<in> set (Fields S)"
  from execute_built [OF assms] have "list_all2 built_struct (filter is_record TDs) (Types DNA)"
    by simp
  with S obtain TD where "built_struct TD S"
    by (blast dest: list_all2_right)
  then obtain RD :: RecordDecl where "list_all2 built_field (fields_rd RD) (Fields S)"
    by (auto simp: built_struct_def split: option.splits)
  with F obtain FD where "built_field FD F"
    by (blast dest: list_all2_right)
  then have "run_field FD (new_field FD) = Inr F" by (simp add: built_field_def)
  from run_field_flags [OF this new_field_flags]
  show "flags_f F AND DNA_FIELD_IS_ARRAY = 0 \<and>
        flags_f F \<in> {0, DNA_FIELD_IS_POINTER, DNA_FIELD_IS_POINTER OR DNA_FIELD_IS_FUNCTION}"
    by (simp add: flag_values_no_array)
qed

theorem is_array_never_set_witness:
  "execute [Table_decl] ([], \<lparr>Types = []\<rparr>) = Inr ([], Table_catalog)
   \<and> map (\<lambda>S. map flags_f (Fields S)) (Types Table_catalog) = [[0, 1, 5]]
   \<and> map (\<lambda>S. map (\<lambda>F. flags_f F AND DNA_FIELD_IS_ARRAY) (Fields S)) (Types Table_catalog)
       = [[0, 0, 0]]"
proof -
  have fl: "map (\<lambda>S. map flags_f (Fields S)) (Types Table_catalog) = [[0, 1, 5]]"
    by (simp add: Table_catalog_def)
  have sets: "set (Types Table_catalog) = {hd (Types Table_catalog)}"
    "Types Table_catalog = [hd (Types Table_catalog)]"
    "Fields (hd (Types Table_catalog)) =
       [Fields (hd (Types Table_catalog)) ! 0, Fields (hd (Types Table_catalog)) ! 1,
        Fields (hd (Types Table_catalog)) ! 2]"
    by (simp_all add: Table_catalog_def)
  from is_array_never_set [OF execute_Table]
  have "\<forall>F \<in> set (Fields (hd (Types Table_catalog))). flags_f F AND DNA_FIELD_IS_ARRAY = 0"
    by (simp add: sets(1))
  then have "map (\<lambda>F. flags_f F AND DNA_FIELD_IS_ARRAY) (Fields (hd (Types Table_catalog)))
      = [0, 0, 0]"
    by (subst sets(3)) (simp add: nth_mem Table_catalog_def)
  then have "map (\<lambda>S. map (\<lambda>F. flags_f F AND DNA_FIELD_IS_ARRAY) (Fields S)) (Types Table_catalog)
       = [[0, 0, 0]]"
    by (subst sets(2)) simp
  with execute_Table fl show ?thesis by blast
qed

subsection \<open>A failed append\<close>

text \<open>
  C7. When \<^verbatim>\<open>realloc\<close> fails, \<^verbatim>\<open>DNA_add_struct\<close> and \<^verbatim>\<open>DNA_add_field\<close> return the null
  handle and leave the catalog alone, but \<^verbatim>\<open>run\<close> writes through the handle without a
  test: on the declaration of \<open>Node\<close> a failure of the first or of the second
  \<^verbatim>\<open>realloc\<close> ends the run in a null dereference, not in a reported failure.
\<close>

theorem failed_append_null_dereference:
  "DNA_add_struct False \<lparr>Types = []\<rparr> ''Node'' = (None, \<lparr>Types = []\<rparr>)
   \<and> run Node_decl ([False], \<lparr>Types = []\<rparr>) = Inl NullDereference
   \<and> run Node_decl ([True, False], \<lparr>Types = []\<rparr>) = Inl NullDereference
   \<and> main True e [False] [Node_decl] fopen_ok fwrite = Inl NullDereference
   \<and> main True e [True, False] [Node_decl] fopen_ok fwrite = Inl NullDereference"
  by (simp add: main_def and_then_def Node_decl_def run_def DNA_add_struct_def
      DNA_add_field_def Let_def)

subsection \<open>A name that fills its buffer\<close>

text \<open>
  C6. A name of 64 characters fills the buffer: \<^verbatim>\<open>strncpy\<close> with the size of the whole
  buffer stores all 64 characters and no terminator, and the encoder then reads the name
  past the end of the buffer. (A name of fewer than 64 characters is stored unchanged with
  its terminator, \<open>c_str_strncpy\<close>.)
\<close>

theorem long_name_unterminated:
  "strncpy 64 (replicate 64 CHR ''a'') = replicate 64 CHR ''a''
   \<and> NUL \<notin> set (strncpy 64 (replicate 64 CHR ''a''))
   \<and> execute [Long_decl] ([], \<lparr>Types = []\<rparr>) =
       Inr ([], \<lparr>Types = [\<lparr>name_s = replicate 64 CHR ''a'', size_s = 0, Fields = []\<rparr>]\<rparr>)
   \<and> encode e \<lparr>Types = [\<lparr>name_s = replicate 64 CHR ''a'', size_s = 0, Fields = []\<rparr>]\<rparr>
       = Inl ReadPastBuffer
   \<and> main True e [] [Long_decl] fopen_ok fwrite = Inl ReadPastBuffer"
proof -
  have enc: "encode e \<lparr>Types = [\<lparr>name_s = replicate 64 CHR ''a'', size_s = 0, Fields = []\<rparr>]\<rparr>
       = Inl ReadPastBuffer"
    by (simp add: encode_eq terminated_def struct_terminated_def)
  have "main True e [] [Long_decl] fopen_ok fwrite = Inl ReadPastBuffer"
    unfolding main_def execute_Long by (simp add: and_then_def enc)
  with enc execute_Long Long_name show ?thesis by simp
qed

subsection \<open>Appending entries\<close>

text \<open>
  C10. Every successful \<^verbatim>\<open>DNA_add_struct\<close> appends exactly one entry at the end of the
  catalog: the handle is the old length, the entries before it are the old ones (name,
  size and fields), and the new entry is all zero but for its name. Every successful
  \<^verbatim>\<open>DNA_add_field\<close> does the same to the fields of a struct, and leaves the name and
  the size of the struct alone.
\<close>

theorem add_entry_frame:
  assumes "DNA_add_struct ok DNA name = (Some h, DNA')"
    and "DNA_add_field ok' S fname = (Some j, S')"
  shows "h = length (Types DNA)
       \<and> length (Types DNA') = length (Types DNA) + 1
       \<and> take (length (Types DNA)) (Types DNA') = Types DNA
       \<and> Types DNA' ! h = \<lparr>name_s = strncpy 64 name, size_s = 0, Fields = []\<rparr>
       \<and> j = length (Fields S)
       \<and> length (Fields S') = length (Fields S) + 1
       \<and> take (length (Fields S)) (Fields S') = Fields S
       \<and> Fields S' ! j = \<lparr>name_f = strncpy 64 fname, type_f = replicate 64 NUL,
            offset_f = 0, size_f = 0, align_f = 0, array_f = 0, flags_f = 0\<rparr>
       \<and> name_s S' = name_s S \<and> size_s S' = size_s S"
proof -
  from assms(1) have ok: ok by (auto simp: DNA_add_struct_def split: if_splits)
  from assms(2) have ok': ok' by (auto simp: DNA_add_field_def split: if_splits)
  from assms(1) ok have s: "h = length (Types DNA)"
    "DNA' = DNA\<lparr>Types := Types DNA @ [memset0_struct\<lparr>name_s := strncpy 64 name\<rparr>]\<rparr>"
    by (simp_all add: DNA_add_struct_Some)
  from assms(2) ok' have f: "j = length (Fields S)"
    "S' = S\<lparr>Fields := Fields S @ [memset0_field\<lparr>name_f := strncpy 64 fname\<rparr>]\<rparr>"
    by (simp_all add: DNA_add_field_Some)
  show ?thesis
    by (simp add: s f memset0_struct_def memset0_field_def)
qed

theorem add_entry_frame_witness:
  "DNA_add_struct True \<lparr>Types = []\<rparr> ''Vec3'' \<noteq> (None, \<lparr>Types = []\<rparr>) \<and>
   Types (snd (DNA_add_struct True \<lparr>Types = []\<rparr> ''Vec3'')) ! 0
     = \<lparr>name_s = strncpy 64 ''Vec3'', size_s = 0, Fields = []\<rparr> \<and>
   Fields (snd (DNA_add_field True \<lparr>name_s = strncpy 64 ''Vec3'', size_s = 12, Fields = []\<rparr> ''x'')) ! 0
     = \<lparr>name_f = strncpy 64 ''x'', type_f = replicate 64 NUL,
            offset_f = 0, size_f = 0, align_f = 0, array_f = 0, flags_f = 0\<rparr>"
  using add_entry_frame [of True "\<lparr>Types = []\<rparr>" "''Vec3''" 0
      "snd (DNA_add_struct True \<lparr>Types = []\<rparr> ''Vec3'')"
      True "\<lparr>name_s = strncpy 64 ''Vec3'', size_s = 12, Fields = []\<rparr>" "''x''" 0
      "snd (DNA_add_field True \<lparr>name_s = strncpy 64 ''Vec3'', size_s = 12, Fields = []\<rparr> ''x'')"]
  by (simp add: DNA_add_struct_Some DNA_add_field_Some)

subsection \<open>The exit status\<close>



end
